theory Spec2Isabelle
  imports Complex_Main
begin

section \<open>The enrollment manager of Lab_8/app.py\<close>

text \<open>
  The Flask application keeps five tables in one SQLite database and serves each request
  with one handler. The development models the tables as lists of rows, a handler as a
  function from the caller's session and the database to the new database and the
  response, and a flashed message together with the redirect as the response.
  Requests are served one after the other: concurrent transactions are not modelled.
\<close>

subsection \<open>The tables (app.py, lines 31 to 111)\<close>

record user =
  u_id :: int
  username :: string
  password_hash :: string
  role :: string

record course =
  c_id :: int
  c_name :: string
  department :: string
  capacity :: int

record enrollment =
  e_id :: int
  e_user_id :: int
  e_course_id :: int

text \<open>
  \<open>grade_value\<close> is a Python float. It is modelled as a real number: the rounding of a
  decimal literal to a double and the values \<open>inf\<close> and \<open>nan\<close> are outside the model.
\<close>

record grade =
  g_id :: int
  g_enrollment_id :: int
  grade_value :: real

record teacher_course =
  tc_id :: int
  tc_teacher_id :: int
  tc_course_id :: int

record db =
  users :: "user list"
  courses :: "course list"
  enrollments :: "enrollment list"
  grades :: "grade list"
  teacher_courses :: "teacher_course list"

text \<open>
  The id of an inserted row is given by the store: SQLite gives an integer primary key
  the largest id of the table plus one, and 1 in an empty table.
\<close>

definition next_id :: "int list \<Rightarrow> int" where
  "next_id ids = (if ids = [] then 1 else Max (set ids) + 1)"

text \<open>
  The integers that the sqlite3 driver binds to a parameter of a query: the signed 64-bit
  range. A query with another integer raises \<open>OverflowError\<close> before any row is read; no
  handler catches it. A table holds no row with such an id, so the handlers raise where
  the lookup of the id finds no row.
\<close>

definition sqlite_int :: "int \<Rightarrow> bool" where
  "sqlite_int i = (- 9223372036854775808 \<le> i \<and> i \<le> 9223372036854775807)"

text \<open>\<open>Course.query.get\<close>, \<open>Enrollment.query.get\<close>: the row with that primary key.\<close>

definition course_get :: "db \<Rightarrow> int \<Rightarrow> course option" where
  "course_get d i = find (\<lambda>c. c_id c = i) (courses d)"

definition enrollment_get :: "db \<Rightarrow> int \<Rightarrow> enrollment option" where
  "enrollment_get d i = find (\<lambda>e. e_id e = i) (enrollments d)"

text \<open>The relationship \<open>Course.enrollments\<close>: the enrollment rows of the course.\<close>

definition course_enrollments :: "db \<Rightarrow> course \<Rightarrow> enrollment list" where
  "course_enrollments d c = filter (\<lambda>e. e_course_id e = c_id c) (enrollments d)"

definition get_enrollment_count :: "db \<Rightarrow> course \<Rightarrow> int" where
  "get_enrollment_count d c = int (length (course_enrollments d c))"

definition is_full :: "db \<Rightarrow> course \<Rightarrow> bool" where
  "is_full d c = (get_enrollment_count d c \<ge> capacity c)"

text \<open>
  The relationship \<open>Enrollment.grade\<close> (\<open>uselist=False\<close>): the grade row of the
  enrollment, the first one if the table held several.
\<close>

definition enrollment_grade :: "db \<Rightarrow> enrollment \<Rightarrow> grade option" where
  "enrollment_grade d e = find (\<lambda>g. g_enrollment_id g = e_id e) (grades d)"

text \<open>\<open>Enrollment.query.filter_by(user_id=..., course_id=...).first()\<close>. The user id comes
  from \<open>session.get\<close>, which is \<open>None\<close> for a missing key; no row has a null user id.\<close>

definition find_enrollment :: "db \<Rightarrow> int option \<Rightarrow> int \<Rightarrow> enrollment option" where
  "find_enrollment d uid cid =
     find (\<lambda>e. Some (e_user_id e) = uid \<and> e_course_id e = cid) (enrollments d)"

definition find_teacher_course :: "db \<Rightarrow> int option \<Rightarrow> int \<Rightarrow> teacher_course option" where
  "find_teacher_course d tid cid =
     find (\<lambda>t. Some (tc_teacher_id t) = tid \<and> tc_course_id t = cid) (teacher_courses d)"

subsection \<open>Sessions and responses\<close>

text \<open>
  The session dictionary with the four keys the application writes; a missing key is
  \<open>False\<close> for \<open>logged_in\<close> and \<open>None\<close> for the others, which is what \<open>session.get\<close>
  returns. Flashed messages are part of the response, not of this record.
\<close>

record session =
  logged_in :: bool
  s_user_id :: "int option"
  s_username :: "string option"
  s_role :: "string option"

definition session_clear :: session where
  "session_clear = \<lparr>logged_in = False, s_user_id = None, s_username = None, s_role = None\<rparr>"

datatype category = success | warning | danger | info

text \<open>
  The flashed messages, one constructor for each text of the source:
  \<^item> \<open>Please_log_in\<close>: Please log in to access this page.
  \<^item> \<open>No_permission_page\<close>: You do not have permission to access this page.
  \<^item> \<open>Credentials_required\<close>: Username and password are required.
  \<^item> \<open>Welcome n\<close>: Welcome, n!
  \<^item> \<open>Invalid_username_or_password\<close>: Invalid username or password.
  \<^item> \<open>Logged_out\<close>: You have been logged out.
  \<^item> \<open>Already_enrolled\<close>: You are already enrolled in this course.
  \<^item> \<open>Course_is_full n k c\<close>: Cannot enroll: n is full (k/c).
  \<^item> \<open>Enrolled n\<close>: Successfully enrolled in n!
  \<^item> \<open>Dropped n\<close>: Successfully dropped n.
  \<^item> \<open>Enrollment_not_found\<close>: Enrollment not found.
  \<^item> \<open>No_permission_grades\<close>: You do not have permission to edit grades for this course.
  \<^item> \<open>Grade_out_of_range\<close>: Grade must be between 0 and 100.
  \<^item> \<open>Invalid_grade_value\<close>: Invalid grade value.
  \<^item> \<open>Grade_updated\<close>: Grade updated successfully.
\<close>

datatype message =
    Please_log_in
  | No_permission_page
  | Credentials_required
  | Welcome string
  | Invalid_username_or_password
  | Logged_out
  | Already_enrolled
  | Course_is_full string int int
  | Enrolled string
  | Dropped string
  | Enrollment_not_found
  | No_permission_grades
  | Grade_out_of_range
  | Invalid_grade_value
  | Grade_updated

datatype endpoint =
    ep_login
  | ep_index
  | ep_student_add
  | ep_student_courses
  | ep_teacher_courses
  | ep_teacher_course_detail int

text \<open>
  A response: the messages flashed while the handler ran, and a redirect, a rendered
  template, an \<open>abort\<close> with a status code (\<open>get_or_404\<close>), or an exception that no
  handler catches (the request ends with status 500 and nothing is committed).
\<close>

datatype response =
    Redirect "(message \<times> category) list" endpoint
  | Render_template "(message \<times> category) list" string
  | Abort nat
  | Unhandled string

subsection \<open>The decorators (lines 195 to 218)\<close>

definition login_required ::
  "(session \<Rightarrow> db \<Rightarrow> 'a \<Rightarrow> db \<times> response) \<Rightarrow> session \<Rightarrow> db \<Rightarrow> 'a \<Rightarrow> db \<times> response" where
  "login_required f s d a =
     (if \<not> logged_in s then (d, Redirect [(Please_log_in, warning)] ep_login)
      else f s d a)"

definition role_required ::
  "string list \<Rightarrow> (session \<Rightarrow> db \<Rightarrow> 'a \<Rightarrow> db \<times> response) \<Rightarrow>
   session \<Rightarrow> db \<Rightarrow> 'a \<Rightarrow> db \<times> response" where
  "role_required allowed_roles f s d a =
     (if \<not> logged_in s then (d, Redirect [(Please_log_in, warning)] ep_login)
      else if s_role s \<notin> Some ` set allowed_roles
        then (d, Redirect [(No_permission_page, danger)] ep_index)
      else f s d a)"

subsection \<open>Login and logout (lines 251 to 281)\<close>

datatype http_method = GET | POST

record login_form =
  f_username :: "string option"
  f_password :: "string option"

text \<open>
  \<open>str.strip()\<close>. A character of a \<open>string\<close> stands for a code point below 256; the
  white space of Python among these is listed. The white space beyond (U+1680, U+2000 to
  U+200A, U+2028, U+2029, U+202F, U+205F, U+3000) has no character here.
\<close>

definition is_space :: "char \<Rightarrow> bool" where
  "is_space c = (c \<in> set [CHR 0x09, CHR 0x0A, CHR 0x0B, CHR 0x0C, CHR 0x0D,
                           CHR 0x1C, CHR 0x1D, CHR 0x1E, CHR 0x1F, CHR 0x20,
                           CHR 0x85, CHR 0xA0])"

definition strip :: "string \<Rightarrow> string" where
  "strip s = rev (dropWhile is_space (rev (dropWhile is_space s)))"

text \<open>\<open>request.form.get(key, '')\<close>.\<close>

definition form_get :: "string option \<Rightarrow> string" where
  "form_get v = (case v of None \<Rightarrow> [] | Some t \<Rightarrow> t)"

text \<open>
  \<open>check_password_hash\<close> belongs to werkzeug; the handler takes it as the parameter
  \<open>chk\<close>, applied to the stored hash and the submitted password.
\<close>

text \<open>\<open>User.query.filter_by(username=username).first()\<close>.\<close>

definition user_by_name :: "db \<Rightarrow> string \<Rightarrow> user option" where
  "user_by_name d n = find (\<lambda>u. username u = n) (users d)"

definition login ::
  "(string \<Rightarrow> string \<Rightarrow> bool) \<Rightarrow> http_method \<Rightarrow> login_form \<Rightarrow> session \<Rightarrow> db \<Rightarrow>
   session \<times> response" where
  "login chk m form s d =
     (if m = POST then
        (let uname = strip (form_get (f_username form));
             pw = strip (form_get (f_password form))
         in if uname = [] \<or> pw = []
            then (s, Render_template [(Credentials_required, danger)] ''login.html'')
            else (case user_by_name d uname of
                    Some u \<Rightarrow>
                      if chk (password_hash u) pw
                      then (\<lparr>logged_in = True, s_user_id = Some (u_id u),
                              s_username = Some (username u), s_role = Some (role u)\<rparr>,
                            Redirect [(Welcome (username u), success)] ep_index)
                      else (s, Render_template [(Invalid_username_or_password, danger)]
                                 ''login.html'')
                  | None \<Rightarrow>
                      (s, Render_template [(Invalid_username_or_password, danger)]
                            ''login.html'')))
      else (s, Render_template [] ''login.html''))"

definition logout :: "session \<Rightarrow> session \<times> response" where
  "logout s = (session_clear, Redirect [(Logged_out, info)] ep_login)"

subsection \<open>The student's handlers (lines 340 to 383)\<close>

text \<open>
  The converter \<open><int:course_id>\<close> of the routes yields no negative id; it yields ids of
  any size.

  \<open>student_enroll\<close>. The insert of a row whose \<open>user_id\<close> is \<open>None\<close> breaks the
  \<open>nullable=False\<close> of the column at the commit.
\<close>

definition student_enroll_body :: "session \<Rightarrow> db \<Rightarrow> int \<Rightarrow> db \<times> response" where
  "student_enroll_body s d course_id =
     (let user_id = s_user_id s in
      case course_get d course_id of
        None \<Rightarrow> if sqlite_int course_id then (d, Abort 404)
                else (d, Unhandled ''OverflowError'')
      | Some course \<Rightarrow>
          (case find_enrollment d user_id course_id of
             Some existing_enrollment \<Rightarrow>
               (d, Redirect [(Already_enrolled, warning)] ep_student_add)
           | None \<Rightarrow>
               if is_full d course
               then (d, Redirect [(Course_is_full (c_name course)
                                     (get_enrollment_count d course) (capacity course),
                                   danger)] ep_student_add)
               else (case user_id of
                       None \<Rightarrow> (d, Unhandled ''IntegrityError'')
                     | Some uid \<Rightarrow>
                         (d\<lparr>enrollments := enrollments d @
                               [\<lparr>e_id = next_id (map e_id (enrollments d)),
                                 e_user_id = uid, e_course_id = course_id\<rparr>]\<rparr>,
                          Redirect [(Enrolled (c_name course), success)]
                                   ep_student_courses))))"

definition student_enroll :: "session \<Rightarrow> db \<Rightarrow> int \<Rightarrow> db \<times> response" where
  "student_enroll = login_required (role_required [''student''] student_enroll_body)"

text \<open>
  \<open>student_drop\<close>. \<open>enrollment.course\<close> is \<open>None\<close> when no course row has the
  enrollment's course id, and reading its name raises. \<open>db.session.delete\<close> deletes the
  enrollment row by its id and, by the cascade of \<open>Enrollment.grade\<close>, the grade row that
  the relationship loads, by its id.
\<close>

definition delete_enrollment :: "db \<Rightarrow> enrollment \<Rightarrow> db" where
  "delete_enrollment d e =
     d\<lparr>enrollments := filter (\<lambda>x. e_id x \<noteq> e_id e) (enrollments d),
       grades := (case enrollment_grade d e of
                    None \<Rightarrow> grades d
                  | Some g \<Rightarrow> filter (\<lambda>x. g_id x \<noteq> g_id g) (grades d))\<rparr>"

definition student_drop_body :: "session \<Rightarrow> db \<Rightarrow> int \<Rightarrow> db \<times> response" where
  "student_drop_body s d course_id =
     (let user_id = s_user_id s in
      case find_enrollment d user_id course_id of
        Some enrollment \<Rightarrow>
          (case course_get d (e_course_id enrollment) of
             None \<Rightarrow> (d, Unhandled ''AttributeError'')
           | Some c \<Rightarrow>
               (delete_enrollment d enrollment,
                Redirect [(Dropped (c_name c), success)] ep_student_courses))
      | None \<Rightarrow>
          if sqlite_int course_id
          then (d, Redirect [(Enrollment_not_found, danger)] ep_student_courses)
          else (d, Unhandled ''OverflowError''))"

definition student_drop :: "session \<Rightarrow> db \<Rightarrow> int \<Rightarrow> db \<times> response" where
  "student_drop = login_required (role_required [''student''] student_drop_body)"

subsection \<open>The teacher's handler (lines 439 to 471)\<close>

text \<open>
  The field \<open>grade\<close> of the submitted form, by what \<open>float\<close> makes of its text: the
  field is missing, its text is no number (\<open>float\<close> raises \<open>ValueError\<close>), or it is the
  number \<open>v\<close>.
\<close>

datatype grade_field = Field_missing | Field_no_number | Field_number real

text \<open>\<open>float(request.form.get('grade', 0))\<close>; \<open>None\<close> stands for the exception.\<close>

fun float_of_grade_field :: "grade_field \<Rightarrow> real option" where
  "float_of_grade_field Field_missing = Some 0"
| "float_of_grade_field Field_no_number = None"
| "float_of_grade_field (Field_number v) = Some v"

definition teacher_edit_grade_body ::
  "session \<Rightarrow> db \<Rightarrow> int \<times> grade_field \<Rightarrow> db \<times> response" where
  "teacher_edit_grade_body s d a =
     (let enrollment_id = fst a; teacher_id = s_user_id s in
      case enrollment_get d enrollment_id of
        None \<Rightarrow> if sqlite_int enrollment_id then (d, Abort 404)
                else (d, Unhandled ''OverflowError'')
      | Some enrollment \<Rightarrow>
          (case find_teacher_course d teacher_id (e_course_id enrollment) of
             None \<Rightarrow> (d, Redirect [(No_permission_grades, danger)] ep_teacher_courses)
           | Some teacher_course \<Rightarrow>
               (case float_of_grade_field (snd a) of
                  None \<Rightarrow> (d, Redirect [(Invalid_grade_value, danger)]
                                (ep_teacher_course_detail (e_course_id enrollment)))
                | Some grade_val \<Rightarrow>
                    if grade_val < 0 \<or> grade_val > 100
                    then (d, Redirect [(Grade_out_of_range, danger)]
                               (ep_teacher_course_detail (e_course_id enrollment)))
                    else
                      ((case enrollment_grade d enrollment of
                          Some g \<Rightarrow>
                            d\<lparr>grades := map (\<lambda>x. if g_id x = g_id g
                                                  then x\<lparr>grade_value := grade_val\<rparr>
                                                  else x) (grades d)\<rparr>
                        | None \<Rightarrow>
                            d\<lparr>grades := grades d @
                                [\<lparr>g_id = next_id (map g_id (grades d)),
                                  g_enrollment_id = enrollment_id,
                                  grade_value = grade_val\<rparr>]\<rparr>),
                       Redirect [(Grade_updated, success)]
                                (ep_teacher_course_detail (e_course_id enrollment))))))"

definition teacher_edit_grade ::
  "session \<Rightarrow> db \<Rightarrow> int \<Rightarrow> grade_field \<Rightarrow> db \<times> response" where
  "teacher_edit_grade s d enrollment_id form =
     login_required (role_required [''teacher''] teacher_edit_grade_body) s d
       (enrollment_id, form)"

subsection \<open>Requests in sequence\<close>

datatype request =
    Enroll session int
  | Drop session int
  | Edit_grade session int grade_field

fun handle :: "db \<Rightarrow> request \<Rightarrow> db \<times> response" where
  "handle d (Enroll s c) = student_enroll s d c"
| "handle d (Drop s c) = student_drop s d c"
| "handle d (Edit_grade s e v) = teacher_edit_grade s d e v"

fun run :: "db \<Rightarrow> request list \<Rightarrow> db" where
  "run d [] = d"
| "run d (r # rs) = run (fst (handle d r)) rs"

text \<open>A response is a success when the message it flashes has the category \<open>success\<close>.\<close>

fun succeeded :: "response \<Rightarrow> bool" where
  "succeeded (Redirect [(m, success)] e) = True"
| "succeeded r = False"

subsection \<open>The constraints of the tables\<close>

text \<open>\<open>unique_enrollment\<close> (line 83): one enrollment row for a student and a course.\<close>

definition unique_enrollment :: "db \<Rightarrow> bool" where
  "unique_enrollment d = distinct (map (\<lambda>e. (e_user_id e, e_course_id e)) (enrollments d))"

text \<open>\<open>unique=True\<close> of \<open>Grade.enrollment_id\<close> (line 93).\<close>

definition unique_grade :: "db \<Rightarrow> bool" where
  "unique_grade d = distinct (map g_enrollment_id (grades d))"

text \<open>
  The foreign key of \<open>Grade.enrollment_id\<close> (line 93): every grade row refers to an
  enrollment row of the table.
\<close>

definition grades_refer :: "db \<Rightarrow> bool" where
  "grades_refer d = list_all (\<lambda>g. g_enrollment_id g \<in> set (map e_id (enrollments d))) (grades d)"

text \<open>
  The rows of a student in a course, the rows that refer to a course, and the grade rows
  of an enrollment, read off the tables.
\<close>

definition enrollments_in :: "db \<Rightarrow> int \<Rightarrow> enrollment list" where
  "enrollments_in d cid = filter (\<lambda>e. e_course_id e = cid) (enrollments d)"


definition enrollments_of :: "db \<Rightarrow> int \<Rightarrow> int \<Rightarrow> enrollment list" where
  "enrollments_of d uid cid =
     filter (\<lambda>e. e_user_id e = uid \<and> e_course_id e = cid) (enrollments d)"

definition grades_of :: "db \<Rightarrow> int \<Rightarrow> grade list" where
  "grades_of d eid = filter (\<lambda>g. g_enrollment_id g = eid) (grades d)"

subsection \<open>The sample data of \<open>init_db\<close> (lines 493 to 560)\<close>

text \<open>The password hashes are salted by werkzeug; a text stands for each of them.\<close>

definition sample_db :: db where
  "sample_db =
     \<lparr>users = [\<lparr>u_id = 1, username = ''admin'', password_hash = ''#admin123'', role = ''admin''\<rparr>,
               \<lparr>u_id = 2, username = ''student1'', password_hash = ''#student123'', role = ''student''\<rparr>,
               \<lparr>u_id = 3, username = ''student2'', password_hash = ''#student123'', role = ''student''\<rparr>,
               \<lparr>u_id = 4, username = ''teacher1'', password_hash = ''#teacher123'', role = ''teacher''\<rparr>],
      courses = [\<lparr>c_id = 1, c_name = ''Introduction to Computer Science'', department = ''CS'', capacity = 30\<rparr>,
                 \<lparr>c_id = 2, c_name = ''Data Structures'', department = ''CS'', capacity = 25\<rparr>,
                 \<lparr>c_id = 3, c_name = ''Web Development'', department = ''CS'', capacity = 20\<rparr>],
      enrollments = [\<lparr>e_id = 1, e_user_id = 2, e_course_id = 1\<rparr>,
                     \<lparr>e_id = 2, e_user_id = 2, e_course_id = 2\<rparr>,
                     \<lparr>e_id = 3, e_user_id = 3, e_course_id = 1\<rparr>],
      grades = [\<lparr>g_id = 1, g_enrollment_id = 1, grade_value = 85.5\<rparr>,
                \<lparr>g_id = 2, g_enrollment_id = 2, grade_value = 92\<rparr>,
                \<lparr>g_id = 3, g_enrollment_id = 3, grade_value = 78.5\<rparr>],
      teacher_courses = [\<lparr>tc_id = 1, tc_teacher_id = 4, tc_course_id = 1\<rparr>,
                         \<lparr>tc_id = 2, tc_teacher_id = 4, tc_course_id = 2\<rparr>]\<rparr>"

text \<open>The sample data with teacher1 assigned to the course 2 only.\<close>

definition one_course_db :: db where
  "one_course_db =
     sample_db\<lparr>teacher_courses := [\<lparr>tc_id = 2, tc_teacher_id = 4, tc_course_id = 2\<rparr>]\<rparr>"

definition student_session :: "int \<Rightarrow> string \<Rightarrow> session" where
  "student_session uid n =
     \<lparr>logged_in = True, s_user_id = Some uid, s_username = Some n, s_role = Some ''student''\<rparr>"

definition teacher_session :: "int \<Rightarrow> string \<Rightarrow> session" where
  "teacher_session uid n =
     \<lparr>logged_in = True, s_user_id = Some uid, s_username = Some n, s_role = Some ''teacher''\<rparr>"

text \<open>
  One course with a single seat and no enrollment, and the requests of two students for
  it: a enrolls, b tries, a drops, b enrolls.
\<close>

definition last_seat_db :: db where
  "last_seat_db =
     \<lparr>users = [\<lparr>u_id = 1, username = ''a'', password_hash = ''#a'', role = ''student''\<rparr>,
               \<lparr>u_id = 2, username = ''b'', password_hash = ''#b'', role = ''student''\<rparr>],
      courses = [\<lparr>c_id = 1, c_name = ''Seminar'', department = ''CS'', capacity = 1\<rparr>],
      enrollments = [], grades = [], teacher_courses = []\<rparr>"

definition last_seat_requests :: "request list" where
  "last_seat_requests =
     [Enroll (student_session 1 ''a'') 1, Enroll (student_session 2 ''b'') 1,
      Drop (student_session 1 ''a'') 1, Enroll (student_session 2 ''b'') 1]"

text \<open>The course with a single seat after a has enrolled.\<close>

definition taken_seat_db :: db where
  "taken_seat_db = last_seat_db\<lparr>enrollments := [\<lparr>e_id = 1, e_user_id = 1, e_course_id = 1\<rparr>]\<rparr>"

text \<open>
  The sample data with one more grade row, which refers to the enrollment 4; the table has
  no such enrollment. SQLite does not check the foreign key unless it is told to, and the
  application does not tell it.
\<close>

definition orphan_grade_db :: db where
  "orphan_grade_db =
     sample_db\<lparr>grades := grades sample_db @
                  [\<lparr>g_id = 4, g_enrollment_id = 4, grade_value = 50\<rparr>]\<rparr>"

section \<open>Properties of the handlers\<close>

subsection \<open>Auxiliary facts\<close>

lemma next_id_fresh: "next_id ids \<notin> set ids"
proof
  assume a: "next_id ids \<in> set ids"
  then have ne: "ids \<noteq> []" by auto
  from a have "next_id ids \<le> Max (set ids)" by simp
  with ne show False by (simp add: next_id_def)
qed

text \<open>The two decorators, unfolded around each handler.\<close>

lemma student_enroll_guard:
  "student_enroll s d c =
     (if \<not> logged_in s then (d, Redirect [(Please_log_in, warning)] ep_login)
      else if s_role s \<noteq> Some ''student''
        then (d, Redirect [(No_permission_page, danger)] ep_index)
      else student_enroll_body s d c)"
  by (auto simp add: student_enroll_def login_required_def role_required_def)

lemma student_drop_guard:
  "student_drop s d c =
     (if \<not> logged_in s then (d, Redirect [(Please_log_in, warning)] ep_login)
      else if s_role s \<noteq> Some ''student''
        then (d, Redirect [(No_permission_page, danger)] ep_index)
      else student_drop_body s d c)"
  by (auto simp add: student_drop_def login_required_def role_required_def)

lemma teacher_edit_grade_guard:
  "teacher_edit_grade s d e v =
     (if \<not> logged_in s then (d, Redirect [(Please_log_in, warning)] ep_login)
      else if s_role s \<noteq> Some ''teacher''
        then (d, Redirect [(No_permission_page, danger)] ep_index)
      else teacher_edit_grade_body s d (e, v))"
  by (auto simp add: teacher_edit_grade_def login_required_def role_required_def)

lemma enrollment_get_id: "enrollment_get d e = Some en \<Longrightarrow> e_id en = e"
  by (auto simp: enrollment_get_def find_Some_iff)

lemma find_update_value:
  "find (\<lambda>g. g_enrollment_id g = k) gs = Some g \<Longrightarrow>
   find (\<lambda>g. g_enrollment_id g = k)
     (map (\<lambda>x. if g_id x = g_id g then x\<lparr>grade_value := v\<rparr> else x) gs)
   = Some (g\<lparr>grade_value := v\<rparr>)"
proof (induction gs)
  case Nil
  then show ?case by simp
next
  case (Cons a gs)
  then show ?case by (auto split: if_splits)
qed

lemma find_append_new:
  "find P xs = None \<Longrightarrow> P y \<Longrightarrow> find P (xs @ [y]) = Some y"
  by (induction xs) (auto split: if_splits)

lemmas handler_defs =
  student_enroll_guard student_drop_guard teacher_edit_grade_guard
  student_enroll_body_def student_drop_body_def teacher_edit_grade_body_def
  delete_enrollment_def course_get_def enrollment_get_def find_enrollment_def
  find_teacher_course_def enrollment_grade_def is_full_def get_enrollment_count_def
  course_enrollments_def next_id_def sqlite_int_def

lemmas sample_defs =
  sample_db_def one_course_db_def student_session_def teacher_session_def
  last_seat_db_def last_seat_requests_def taken_seat_db_def orphan_grade_db_def

lemma find_SomeD: "find P xs = Some x \<Longrightarrow> P x \<and> x \<in> set xs"
  by (induction xs) (auto split: if_splits)

lemma find_enrollment_None: "(find_enrollment d (Some uid) c = None) = (enrollments_of d uid c = [])"
  by (auto simp: find_enrollment_def enrollments_of_def find_None_iff filter_empty_conv)

lemma course_get_id: "course_get d c = Some co \<Longrightarrow> c_id co = c \<and> co \<in> set (courses d)"
  by (auto simp: course_get_def dest: find_SomeD)

lemma length_filter_conj_le:
  "length (filter (\<lambda>x. Q x \<and> P x) xs) \<le> length (filter P xs)"
  by (induction xs) auto

lemma map_update_enrollment_id:
  "map g_enrollment_id (map (\<lambda>x. if g_id x = i then x\<lparr>grade_value := v\<rparr> else x) gs)
   = map g_enrollment_id gs"
  by (induction gs) auto

text \<open>What each handler does to the tables.\<close>

lemma enroll_other_tables:
  "grades (fst (student_enroll s d c)) = grades d \<and>
   courses (fst (student_enroll s d c)) = courses d \<and>
   teacher_courses (fst (student_enroll s d c)) = teacher_courses d \<and>
   users (fst (student_enroll s d c)) = users d"
  by (simp add: student_enroll_guard student_enroll_body_def Let_def split: option.splits)

lemma enroll_enrollments:
  "enrollments (fst (student_enroll s d c)) = enrollments d \<or>
   (\<exists>uid co. s_user_id s = Some uid \<and> course_get d c = Some co \<and>
      enrollments_of d uid c = [] \<and> get_enrollment_count d co < capacity co \<and>
      enrollments (fst (student_enroll s d c)) =
        enrollments d @
          [\<lparr>e_id = next_id (map e_id (enrollments d)), e_user_id = uid, e_course_id = c\<rparr>])"
  by (auto simp: student_enroll_guard student_enroll_body_def Let_def is_full_def
        find_enrollment_None split: option.splits)

lemma drop_other_tables:
  "courses (fst (student_drop s d c)) = courses d \<and>
   teacher_courses (fst (student_drop s d c)) = teacher_courses d \<and>
   users (fst (student_drop s d c)) = users d"
  by (simp add: student_drop_guard student_drop_body_def delete_enrollment_def Let_def
        split: option.splits)

lemma drop_enrollments:
  "enrollments (fst (student_drop s d c)) = enrollments d \<or>
   (\<exists>i. enrollments (fst (student_drop s d c)) = filter (\<lambda>x. e_id x \<noteq> i) (enrollments d))"
  by (auto simp: student_drop_guard student_drop_body_def delete_enrollment_def Let_def
        split: option.splits)

lemma drop_grades:
  "grades (fst (student_drop s d c)) = grades d \<or>
   (\<exists>i. grades (fst (student_drop s d c)) = filter (\<lambda>x. g_id x \<noteq> i) (grades d))"
  by (auto simp: student_drop_guard student_drop_body_def delete_enrollment_def Let_def
        split: option.splits)

lemma edit_other_tables:
  "enrollments (fst (teacher_edit_grade s d e f)) = enrollments d \<and>
   courses (fst (teacher_edit_grade s d e f)) = courses d \<and>
   teacher_courses (fst (teacher_edit_grade s d e f)) = teacher_courses d \<and>
   users (fst (teacher_edit_grade s d e f)) = users d"
  by (simp add: teacher_edit_grade_guard teacher_edit_grade_body_def Let_def
        split: option.splits)

lemma edit_grades:
  "grades (fst (teacher_edit_grade s d e f)) = grades d \<or>
   (\<exists>i v. grades (fst (teacher_edit_grade s d e f)) =
       map (\<lambda>x. if g_id x = i then x\<lparr>grade_value := v\<rparr> else x) (grades d)) \<or>
   (\<exists>v. (\<forall>g \<in> set (grades d). g_enrollment_id g \<noteq> e) \<and>
       grades (fst (teacher_edit_grade s d e f)) =
       grades d @ [\<lparr>g_id = next_id (map g_id (grades d)),
                     g_enrollment_id = e, grade_value = v\<rparr>])"
proof (cases "enrollment_get d e")
  case None
  then show ?thesis
    by (simp add: teacher_edit_grade_guard teacher_edit_grade_body_def)
next
  case en: (Some en)
  then have id: "e_id en = e" by (rule enrollment_get_id)
  show ?thesis
  proof (cases "enrollment_grade d en")
    case None
    then have "\<forall>g \<in> set (grades d). g_enrollment_id g \<noteq> e"
      using id by (auto simp: enrollment_grade_def find_None_iff)
    with None en show ?thesis
      by (simp add: teacher_edit_grade_guard teacher_edit_grade_body_def Let_def
            split: option.splits)
  next
    case g: (Some g)
    show ?thesis
    proof (cases "float_of_grade_field f")
      case None
      with en show ?thesis
        by (simp add: teacher_edit_grade_guard teacher_edit_grade_body_def Let_def
              split: option.splits)
    next
      case (Some v)
      with g en have "grades (fst (teacher_edit_grade s d e f)) = grades d \<or>
          grades (fst (teacher_edit_grade s d e f)) =
             map (\<lambda>x. if g_id x = g_id g then x\<lparr>grade_value := v\<rparr> else x) (grades d)"
        by (simp add: teacher_edit_grade_guard teacher_edit_grade_body_def Let_def
              split: option.splits)
      then show ?thesis by blast
    qed
  qed
qed

lemma unique_enrollment_handle:
  assumes "unique_enrollment d" shows "unique_enrollment (fst (handle d r))"
proof (cases r)
  case (Enroll s c)
  from enroll_enrollments [of s d c] assms show ?thesis
    unfolding Enroll
    by (auto simp: unique_enrollment_def enrollments_of_def filter_empty_conv)
next
  case (Drop s c)
  from drop_enrollments [of s d c] assms show ?thesis
    unfolding Drop
    by (auto simp: unique_enrollment_def distinct_map_filter)
next
  case (Edit_grade s e f)
  from assms show ?thesis
    unfolding Edit_grade
    by (simp add: unique_enrollment_def edit_other_tables)
qed

lemma unique_grade_handle:
  assumes "unique_grade d" shows "unique_grade (fst (handle d r))"
proof (cases r)
  case (Enroll s c)
  from assms show ?thesis
    unfolding Enroll by (simp add: unique_grade_def enroll_other_tables)
next
  case (Drop s c)
  from drop_grades [of s d c] assms show ?thesis
    unfolding Drop
    by (auto simp: unique_grade_def distinct_map_filter)
next
  case (Edit_grade s e f)
  from edit_grades [of s d e f] assms show ?thesis
    unfolding Edit_grade
    by (auto simp: unique_grade_def map_update_enrollment_id simp del: map_map)
qed

lemma unique_enrollment_run: "unique_enrollment d \<Longrightarrow> unique_enrollment (run d rs)"
  by (induction rs arbitrary: d) (auto intro: unique_enrollment_handle)

lemma unique_grade_run: "unique_grade d \<Longrightarrow> unique_grade (run d rs)"
  by (induction rs arbitrary: d) (auto intro: unique_grade_handle)

lemma courses_handle: "courses (fst (handle d r)) = courses d"
  by (cases r) (simp_all add: enroll_other_tables drop_other_tables edit_other_tables)


lemma distinct_key_eq:
  "distinct (map f xs) \<Longrightarrow> x \<in> set xs \<Longrightarrow> y \<in> set xs \<Longrightarrow> f x = f y \<Longrightarrow> x = y"
  by (auto simp: distinct_map inj_on_def)

lemma filter_update_unique:
  "distinct (map g_enrollment_id gs) \<Longrightarrow> find (\<lambda>g. g_enrollment_id g = k) gs = Some g \<Longrightarrow>
   filter (\<lambda>x. g_enrollment_id x = k)
     (map (\<lambda>x. if g_id x = g_id g then x\<lparr>grade_value := v\<rparr> else x) gs)
   = [g\<lparr>grade_value := v\<rparr>]"
proof (induction gs)
  case Nil
  then show ?case by simp
next
  case (Cons a gs)
  show ?case
  proof (cases "g_enrollment_id a = k")
    case True
    with Cons.prems have ag: "a = g" and none: "\<forall>x \<in> set gs. g_enrollment_id x \<noteq> k"
      by (auto simp: image_iff)
    from none have "filter (\<lambda>x. g_enrollment_id x = k)
       (map (\<lambda>x. if g_id x = g_id g then x\<lparr>grade_value := v\<rparr> else x) gs) = []"
      by (auto simp: filter_empty_conv)
    with True ag show ?thesis by simp
  next
    case False
    with Cons show ?thesis by simp
  qed
qed

text \<open>The rows of one course stay within its capacity.\<close>

lemma capacity_handle:
  assumes co: "course_get d cid = Some C"
    and inv: "int (length (enrollments_in d cid)) \<le> capacity C"
  shows "course_get (fst (handle d r)) cid = Some C \<and>
         int (length (enrollments_in (fst (handle d r)) cid)) \<le> capacity C"
proof
  show "course_get (fst (handle d r)) cid = Some C"
    using co by (simp add: course_get_def courses_handle)
  from co have cid: "c_id C = cid" by (simp add: course_get_id)
  show "int (length (enrollments_in (fst (handle d r)) cid)) \<le> capacity C"
  proof (cases r)
    case (Enroll s c)
    from enroll_enrollments [of s d c] show ?thesis
    proof
      assume "enrollments (fst (student_enroll s d c)) = enrollments d"
      with inv show ?thesis unfolding Enroll by (simp add: enrollments_in_def)
    next
      assume "\<exists>uid co. s_user_id s = Some uid \<and> course_get d c = Some co \<and>
          enrollments_of d uid c = [] \<and> get_enrollment_count d co < capacity co \<and>
          enrollments (fst (student_enroll s d c)) =
            enrollments d @
              [\<lparr>e_id = next_id (map e_id (enrollments d)), e_user_id = uid, e_course_id = c\<rparr>]"
      then obtain uid co' where co': "course_get d c = Some co'"
        and room: "get_enrollment_count d co' < capacity co'"
        and eq: "enrollments (fst (student_enroll s d c)) =
            enrollments d @
              [\<lparr>e_id = next_id (map e_id (enrollments d)), e_user_id = uid, e_course_id = c\<rparr>]"
        by blast
      show ?thesis
      proof (cases "c = cid")
        case True
        with co co' have "co' = C" by simp
        with room cid have "int (length (enrollments_in d cid)) < capacity C"
          by (simp add: get_enrollment_count_def course_enrollments_def enrollments_in_def)
        with True eq show ?thesis unfolding Enroll by (simp add: enrollments_in_def)
      next
        case False
        with inv eq show ?thesis unfolding Enroll by (simp add: enrollments_in_def)
      qed
    qed
  next
    case (Drop s c)
    from drop_enrollments [of s d c] show ?thesis
    proof
      assume "enrollments (fst (student_drop s d c)) = enrollments d"
      with inv show ?thesis unfolding Drop by (simp add: enrollments_in_def)
    next
      assume "\<exists>i. enrollments (fst (student_drop s d c)) =
                filter (\<lambda>x. e_id x \<noteq> i) (enrollments d)"
      then obtain i where eq: "enrollments (fst (student_drop s d c)) =
                filter (\<lambda>x. e_id x \<noteq> i) (enrollments d)" by blast
      have "length (enrollments_in (fst (student_drop s d c)) cid)
              \<le> length (enrollments_in d cid)"
        by (simp add: enrollments_in_def eq length_filter_conj_le)
      with inv show ?thesis unfolding Drop by simp
    qed
  next
    case (Edit_grade s e f)
    from inv show ?thesis unfolding Edit_grade
      by (simp add: enrollments_in_def edit_other_tables)
  qed
qed

lemma capacity_run:
  "course_get d cid = Some C \<Longrightarrow> int (length (enrollments_in d cid)) \<le> capacity C \<Longrightarrow>
   course_get (run d rs) cid = Some C \<and> int (length (enrollments_in (run d rs) cid)) \<le> capacity C"
proof (induction rs arbitrary: d)
  case Nil
  then show ?case by simp
next
  case (Cons r rs)
  from capacity_handle [OF Cons.prems, of r]
  show ?case by (simp add: Cons.IH)
qed


lemma grades_refer_handle:
  assumes ref: "grades_refer d" and uniq: "unique_grade d"
  shows "grades_refer (fst (handle d r))"
proof (cases r)
  case (Enroll s c)
  from enroll_enrollments [of s d c] ref show ?thesis unfolding Enroll
    by (auto simp: grades_refer_def list_all_iff enroll_other_tables)
next
  case (Drop s c)
  show ?thesis
  proof (cases "fst (student_drop s d c) = d")
    case True
    with ref show ?thesis unfolding Drop by simp
  next
    case False
    then obtain en where en: "en \<in> set (enrollments d)"
      and eq: "fst (student_drop s d c) = delete_enrollment d en"
      by (auto simp: student_drop_guard student_drop_body_def Let_def find_enrollment_def
            split: option.splits if_splits dest: find_SomeD)
    have "g_enrollment_id x \<in> e_id ` set (enrollments (delete_enrollment d en))"
      if x: "x \<in> set (grades (delete_enrollment d en))" for x
    proof -
      from x have xd: "x \<in> set (grades d)"
        by (auto simp: delete_enrollment_def split: option.splits)
      with ref have old: "g_enrollment_id x \<in> e_id ` set (enrollments d)"
        by (simp add: grades_refer_def list_all_iff)
      have "g_enrollment_id x \<noteq> e_id en"
      proof
        assume same: "g_enrollment_id x = e_id en"
        then obtain g where g: "enrollment_grade d en = Some g"
          using xd by (cases "enrollment_grade d en")
            (auto simp: enrollment_grade_def find_None_iff)
        then have "g \<in> set (grades d)" "g_enrollment_id g = e_id en"
          by (auto simp: enrollment_grade_def dest: find_SomeD)
        with uniq xd same have "x = g"
          unfolding unique_grade_def by (auto intro: distinct_key_eq)
        with x g show False by (simp add: delete_enrollment_def)
      qed
      with old show ?thesis by (auto simp: delete_enrollment_def)
    qed
    then show ?thesis unfolding Drop
      by (simp add: grades_refer_def list_all_iff eq)
  qed
next
  case (Edit_grade s e f)
  from edit_grades [of s d e f] show ?thesis
  proof (elim disjE exE conjE)
    assume "grades (fst (teacher_edit_grade s d e f)) = grades d"
    with ref show ?thesis unfolding Edit_grade
      by (simp add: grades_refer_def list_all_iff edit_other_tables)
  next
    fix i v
    assume "grades (fst (teacher_edit_grade s d e f)) =
       map (\<lambda>x. if g_id x = i then x\<lparr>grade_value := v\<rparr> else x) (grades d)"
    with ref show ?thesis unfolding Edit_grade
      by (auto simp: grades_refer_def list_all_iff edit_other_tables)
  next
    fix v
    assume eq: "grades (fst (teacher_edit_grade s d e f)) =
       grades d @ [\<lparr>g_id = next_id (map g_id (grades d)),
                     g_enrollment_id = e, grade_value = v\<rparr>]"
    then have "fst (teacher_edit_grade s d e f) \<noteq> d" by auto
    then obtain en where "enrollment_get d e = Some en"
      by (cases "enrollment_get d e")
         (auto simp: teacher_edit_grade_guard teacher_edit_grade_body_def)
    then have "e \<in> e_id ` set (enrollments d)"
      by (auto simp: enrollment_get_def dest: find_SomeD)
    with ref eq show ?thesis unfolding Edit_grade
      by (auto simp: grades_refer_def list_all_iff edit_other_tables)
  qed
qed



subsection \<open>Failures leave the store as it was\<close>

text \<open>
  Claim C7. Whenever a request to enroll, to drop or to set a grade is answered with
  anything but a success, the database after the request is the database before it: no
  enrollment row and no grade row has been written, changed or deleted.
\<close>

theorem failure_leaves_store:
  "\<not> succeeded (snd (handle d r)) \<Longrightarrow> fst (handle d r) = d"
  by (cases r)
    (auto simp: student_enroll_guard student_drop_guard teacher_edit_grade_guard
       student_enroll_body_def student_drop_body_def teacher_edit_grade_body_def Let_def
       split: option.splits if_splits)

text \<open>student2 is enrolled in the course 1 already; the second enrollment is refused.\<close>

theorem failure_leaves_store_witness:
  "\<not> succeeded (snd (handle sample_db (Enroll (student_session 3 ''student2'') 1))) \<and>
   fst (handle sample_db (Enroll (student_session 3 ''student2'') 1)) = sample_db"
  using failure_leaves_store [of sample_db "Enroll (student_session 3 ''student2'') 1"]
  by (simp add: handler_defs sample_defs)

subsection \<open>A teacher without the assignment is refused first\<close>

text \<open>
  Claim C8. When a logged-in teacher has no row of \<open>teacher_courses\<close> for the course of
  an existing enrollment, the request to set its grade is answered with the message that
  the teacher has no permission to edit grades for this course, whatever the form holds
  (a valid number, a number out of range, no number, no field), and the database is left
  as it was: the check of the assignment comes before the value is read.
\<close>

theorem unassigned_teacher_forbidden:
  assumes "logged_in s" and "s_role s = Some ''teacher''"
    and "enrollment_get d e = Some en"
    and "find_teacher_course d (s_user_id s) (e_course_id en) = None"
  shows "teacher_edit_grade s d e v =
           (d, Redirect [(No_permission_grades, danger)] ep_teacher_courses)"
  using assms by (simp add: teacher_edit_grade_guard teacher_edit_grade_body_def)

text \<open>teacher1, assigned to the course 2 only, on the enrollment 3 of the course 1.\<close>

theorem unassigned_teacher_forbidden_witness:
  "logged_in (teacher_session 4 ''teacher1'') \<and>
   s_role (teacher_session 4 ''teacher1'') = Some ''teacher'' \<and>
   enrollment_get one_course_db 3 = Some \<lparr>e_id = 3, e_user_id = 3, e_course_id = 1\<rparr> \<and>
   find_teacher_course one_course_db (s_user_id (teacher_session 4 ''teacher1'')) 1 = None \<and>
   teacher_edit_grade (teacher_session 4 ''teacher1'') one_course_db 3 (Field_number 90)
     = (one_course_db, Redirect [(No_permission_grades, danger)] ep_teacher_courses)"
  using unassigned_teacher_forbidden [of "teacher_session 4 ''teacher1''" one_course_db 3
     "\<lparr>e_id = 3, e_user_id = 3, e_course_id = 1\<rparr>" "Field_number 90"]
  by (simp add: enrollment_get_def find_teacher_course_def sample_defs)

subsection \<open>The range of a grade\<close>

text \<open>
  Claim C4. For a teacher assigned to the course of the enrollment, the request to set
  the grade to the number \<open>v\<close> is answered with the message that the grade must be
  between 0 and 100 exactly when \<open>v < 0\<close> or \<open>v > 100\<close>; then the database is left as it
  was, so no grade row is created or changed. For \<open>0 \<le> v \<le> 100\<close>, both bounds included,
  the request succeeds.
\<close>

theorem grade_range_check:
  assumes "logged_in s" and "s_role s = Some ''teacher''"
    and "enrollment_get d e = Some en"
    and "find_teacher_course d (s_user_id s) (e_course_id en) = Some tc"
  shows "((snd (teacher_edit_grade s d e (Field_number v)) =
             Redirect [(Grade_out_of_range, danger)] (ep_teacher_course_detail (e_course_id en)))
           \<longleftrightarrow> (v < 0 \<or> v > 100)) \<and>
         (v < 0 \<or> v > 100 \<longrightarrow> fst (teacher_edit_grade s d e (Field_number v)) = d) \<and>
         (0 \<le> v \<and> v \<le> 100 \<longrightarrow>
            snd (teacher_edit_grade s d e (Field_number v)) =
              Redirect [(Grade_updated, success)] (ep_teacher_course_detail (e_course_id en)))"
  using assms by (auto simp: teacher_edit_grade_guard teacher_edit_grade_body_def)

text \<open>teacher1 on the enrollment 1, with the values \<open>-0.01\<close>, \<open>100.01\<close>, \<open>0\<close> and \<open>100\<close>.\<close>

theorem grade_range_check_witness:
  "logged_in (teacher_session 4 ''teacher1'') \<and>
   s_role (teacher_session 4 ''teacher1'') = Some ''teacher'' \<and>
   enrollment_get sample_db 1 = Some \<lparr>e_id = 1, e_user_id = 2, e_course_id = 1\<rparr> \<and>
   find_teacher_course sample_db (s_user_id (teacher_session 4 ''teacher1'')) 1
     = Some \<lparr>tc_id = 1, tc_teacher_id = 4, tc_course_id = 1\<rparr> \<and>
   teacher_edit_grade (teacher_session 4 ''teacher1'') sample_db 1 (Field_number (- 0.01))
     = (sample_db, Redirect [(Grade_out_of_range, danger)] (ep_teacher_course_detail 1)) \<and>
   teacher_edit_grade (teacher_session 4 ''teacher1'') sample_db 1 (Field_number 100.01)
     = (sample_db, Redirect [(Grade_out_of_range, danger)] (ep_teacher_course_detail 1)) \<and>
   snd (teacher_edit_grade (teacher_session 4 ''teacher1'') sample_db 1 (Field_number 0))
     = Redirect [(Grade_updated, success)] (ep_teacher_course_detail 1) \<and>
   snd (teacher_edit_grade (teacher_session 4 ''teacher1'') sample_db 1 (Field_number 100))
     = Redirect [(Grade_updated, success)] (ep_teacher_course_detail 1)"
  using grade_range_check [of "teacher_session 4 ''teacher1''" sample_db 1
          "\<lparr>e_id = 1, e_user_id = 2, e_course_id = 1\<rparr>"
          "\<lparr>tc_id = 1, tc_teacher_id = 4, tc_course_id = 1\<rparr>" "- 0.01"]
        grade_range_check [of "teacher_session 4 ''teacher1''" sample_db 1
          "\<lparr>e_id = 1, e_user_id = 2, e_course_id = 1\<rparr>"
          "\<lparr>tc_id = 1, tc_teacher_id = 4, tc_course_id = 1\<rparr>" "100.01"]
        grade_range_check [of "teacher_session 4 ''teacher1''" sample_db 1
          "\<lparr>e_id = 1, e_user_id = 2, e_course_id = 1\<rparr>"
          "\<lparr>tc_id = 1, tc_teacher_id = 4, tc_course_id = 1\<rparr>" 0]
        grade_range_check [of "teacher_session 4 ''teacher1''" sample_db 1
          "\<lparr>e_id = 1, e_user_id = 2, e_course_id = 1\<rparr>"
          "\<lparr>tc_id = 1, tc_teacher_id = 4, tc_course_id = 1\<rparr>" 100]
  by (simp add: handler_defs sample_defs)

subsection \<open>A missing grade field\<close>

text \<open>
  Claim C10. When an assigned teacher submits the form without the field \<open>grade\<close>, the
  handler does what it does for the number 0: it answers with the success message and the
  grade of the enrollment is 0 afterwards, the existing grade row overwritten or, when the
  enrollment had none, a new row with the value 0 appended.
\<close>

theorem missing_grade_is_zero:
  assumes "logged_in s" and "s_role s = Some ''teacher''"
    and "enrollment_get d e = Some en"
    and "find_teacher_course d (s_user_id s) (e_course_id en) = Some tc"
  shows "teacher_edit_grade s d e Field_missing = teacher_edit_grade s d e (Field_number 0) \<and>
         snd (teacher_edit_grade s d e Field_missing) =
           Redirect [(Grade_updated, success)] (ep_teacher_course_detail (e_course_id en)) \<and>
         map_option grade_value (enrollment_grade (fst (teacher_edit_grade s d e Field_missing)) en)
           = Some 0 \<and>
         grades (fst (teacher_edit_grade s d e Field_missing)) =
           (case enrollment_grade d en of
              Some g \<Rightarrow> map (\<lambda>x. if g_id x = g_id g then x\<lparr>grade_value := 0\<rparr> else x) (grades d)
            | None \<Rightarrow> grades d @ [\<lparr>g_id = next_id (map g_id (grades d)),
                                     g_enrollment_id = e, grade_value = 0\<rparr>])"
proof -
  have id: "e_id en = e" using assms(3) by (rule enrollment_get_id)
  show ?thesis
  proof (cases "enrollment_grade d en")
    case None
    then have "find (\<lambda>g. g_enrollment_id g = e_id en)
                 (grades d @ [\<lparr>g_id = next_id (map g_id (grades d)),
                                g_enrollment_id = e, grade_value = 0\<rparr>])
               = Some \<lparr>g_id = next_id (map g_id (grades d)), g_enrollment_id = e, grade_value = 0\<rparr>"
      using id by (intro find_append_new) (simp_all add: enrollment_grade_def)
    with None assms show ?thesis
      by (simp add: teacher_edit_grade_guard teacher_edit_grade_body_def enrollment_grade_def)
  next
    case (Some g)
    then have "find (\<lambda>g. g_enrollment_id g = e_id en)
                 (map (\<lambda>x. if g_id x = g_id g then x\<lparr>grade_value := 0\<rparr> else x) (grades d))
               = Some (g\<lparr>grade_value := 0\<rparr>)"
      by (intro find_update_value) (simp add: enrollment_grade_def)
    with Some assms show ?thesis
      by (simp add: teacher_edit_grade_guard teacher_edit_grade_body_def enrollment_grade_def)
  qed
qed

text \<open>teacher1 on the enrollment 1, whose grade was 85.5.\<close>

theorem missing_grade_is_zero_witness:
  "logged_in (teacher_session 4 ''teacher1'') \<and>
   s_role (teacher_session 4 ''teacher1'') = Some ''teacher'' \<and>
   enrollment_get sample_db 1 = Some \<lparr>e_id = 1, e_user_id = 2, e_course_id = 1\<rparr> \<and>
   find_teacher_course sample_db (s_user_id (teacher_session 4 ''teacher1'')) 1
     = Some \<lparr>tc_id = 1, tc_teacher_id = 4, tc_course_id = 1\<rparr> \<and>
   snd (teacher_edit_grade (teacher_session 4 ''teacher1'') sample_db 1 Field_missing)
     = Redirect [(Grade_updated, success)] (ep_teacher_course_detail 1) \<and>
   grades (fst (teacher_edit_grade (teacher_session 4 ''teacher1'') sample_db 1 Field_missing))
     = [\<lparr>g_id = 1, g_enrollment_id = 1, grade_value = 0\<rparr>,
        \<lparr>g_id = 2, g_enrollment_id = 2, grade_value = 92\<rparr>,
        \<lparr>g_id = 3, g_enrollment_id = 3, grade_value = 78.5\<rparr>]"
  using missing_grade_is_zero [of "teacher_session 4 ''teacher1''" sample_db 1
          "\<lparr>e_id = 1, e_user_id = 2, e_course_id = 1\<rparr>"
          "\<lparr>tc_id = 1, tc_teacher_id = 4, tc_course_id = 1\<rparr>"]
  by (simp add: handler_defs sample_defs)

subsection \<open>Failed logins look alike\<close>

text \<open>
  Claim C9. A login posted for a name that no user has and the same login posted where a
  user of that name exists but the password does not match its hash get the same answer:
  the session is returned as it was and the login page is rendered with one message of the
  category \<open>danger\<close>, which depends on the submitted form only (that the name and the
  password are required when one of them is empty after stripping, that the name or the
  password is invalid otherwise). The name is the submitted text stripped of white space,
  as the handler looks it up.
\<close>

theorem login_failures_alike:
  assumes "user_by_name d1 (strip (form_get (f_username form))) = None"
    and "user_by_name d2 (strip (form_get (f_username form))) = Some u"
    and "\<not> chk (password_hash u) (strip (form_get (f_password form)))"
  shows "login chk POST form s d1 = login chk POST form s d2 \<and>
         login chk POST form s d1 =
           (s, Render_template
                 [(if strip (form_get (f_username form)) = [] \<or>
                      strip (form_get (f_password form)) = []
                   then Credentials_required else Invalid_username_or_password, danger)]
                 ''login.html'')"
  using assms by (simp add: login_def Let_def)

text \<open>
  The name admin with a wrong password, against the sample data and against the sample
  data without any user; the hash check of the example accepts the text after the mark.
\<close>

theorem login_failures_alike_witness:
  "user_by_name (sample_db\<lparr>users := []\<rparr>)
      (strip (form_get (f_username \<lparr>f_username = Some ''admin'', f_password = Some ''guess''\<rparr>))) = None \<and>
   user_by_name sample_db
      (strip (form_get (f_username \<lparr>f_username = Some ''admin'', f_password = Some ''guess''\<rparr>)))
     = Some \<lparr>u_id = 1, username = ''admin'', password_hash = ''#admin123'', role = ''admin''\<rparr> \<and>
   \<not> (\<lambda>h p. h = CHR ''#'' # p) (password_hash \<lparr>u_id = 1, username = ''admin'', password_hash = ''#admin123'', role = ''admin''\<rparr>)
      (strip (form_get (f_password \<lparr>f_username = Some ''admin'', f_password = Some ''guess''\<rparr>))) \<and>
   login (\<lambda>h p. h = CHR ''#'' # p) POST \<lparr>f_username = Some ''admin'', f_password = Some ''guess''\<rparr>
      session_clear (sample_db\<lparr>users := []\<rparr>)
     = (session_clear, Render_template [(Invalid_username_or_password, danger)] ''login.html'') \<and>
   login (\<lambda>h p. h = CHR ''#'' # p) POST \<lparr>f_username = Some ''admin'', f_password = Some ''guess''\<rparr>
      session_clear sample_db
     = (session_clear, Render_template [(Invalid_username_or_password, danger)] ''login.html'')"
  using login_failures_alike [of "sample_db\<lparr>users := []\<rparr>"
          "\<lparr>f_username = Some ''admin'', f_password = Some ''guess''\<rparr>" sample_db
          "\<lparr>u_id = 1, username = ''admin'', password_hash = ''#admin123'', role = ''admin''\<rparr>"
          "\<lambda>h p. h = CHR ''#'' # p" session_clear]
  by (simp add: login_def user_by_name_def strip_def is_space_def form_get_def sample_defs)

subsection \<open>The capacity of a course\<close>

text \<open>
  Claim C1. Let \<open>C\<close> be the course with the id \<open>cid\<close>, and let the enrollment table
  hold at most \<open>capacity C\<close> rows that refer to it. Then, after every prefix of every
  sequence of requests to enroll and to drop (and to set grades), \<open>C\<close> is still the course
  with that id and the table still holds at most \<open>capacity C\<close> rows that refer to it.
  Nothing is assumed of the other courses.
\<close>

theorem capacity_respected:
  assumes "course_get d cid = Some C"
    and "int (length (enrollments_in d cid)) \<le> capacity C"
  shows "course_get (run d (take n rs)) cid = Some C \<and>
         int (length (enrollments_in (run d (take n rs)) cid)) \<le> capacity C"
  using assms by (rule capacity_run)

text \<open>
  The course with a single seat: after a has enrolled, b is told that the course is full
  (1/1) and nothing is written; after a has dropped, b gets the seat.
\<close>

theorem capacity_respected_witness:
  "course_get last_seat_db 1 =
     Some \<lparr>c_id = 1, c_name = ''Seminar'', department = ''CS'', capacity = 1\<rparr> \<and>
   int (length (enrollments_in last_seat_db 1)) \<le> 1 \<and>
   enrollments_in (run last_seat_db (take 1 last_seat_requests)) 1
     = [\<lparr>e_id = 1, e_user_id = 1, e_course_id = 1\<rparr>] \<and>
   handle (run last_seat_db (take 1 last_seat_requests)) (Enroll (student_session 2 ''b'') 1)
     = (run last_seat_db (take 1 last_seat_requests),
        Redirect [(Course_is_full ''Seminar'' 1 1, danger)] ep_student_add) \<and>
   enrollments_in (run last_seat_db (take 2 last_seat_requests)) 1
     = [\<lparr>e_id = 1, e_user_id = 1, e_course_id = 1\<rparr>] \<and>
   enrollments_in (run last_seat_db (take 3 last_seat_requests)) 1 = [] \<and>
   enrollments_in (run last_seat_db (take 4 last_seat_requests)) 1
     = [\<lparr>e_id = 1, e_user_id = 2, e_course_id = 1\<rparr>]"
  using capacity_respected [of last_seat_db 1
          "\<lparr>c_id = 1, c_name = ''Seminar'', department = ''CS'', capacity = 1\<rparr>" 2
          last_seat_requests]
        capacity_respected [of last_seat_db 1
          "\<lparr>c_id = 1, c_name = ''Seminar'', department = ''CS'', capacity = 1\<rparr>" 4
          last_seat_requests]
  by (simp add: last_seat_db_def last_seat_requests_def enrollments_in_def handler_defs
        sample_defs)

subsection \<open>The checks of an enrollment\<close>




subsection \<open>One enrollment row for a student and a course\<close>

text \<open>The successful enrollment, and what it needs.\<close>

lemma enroll_result:
  assumes "logged_in s" and "s_role s = Some ''student''" and "s_user_id s = Some uid"
    and "course_get d c = Some co" and "enrollments_of d uid c = []"
    and "get_enrollment_count d co < capacity co"
  shows "student_enroll s d c =
     (d\<lparr>enrollments := enrollments d @
          [\<lparr>e_id = next_id (map e_id (enrollments d)), e_user_id = uid, e_course_id = c\<rparr>]\<rparr>,
      Redirect [(Enrolled (c_name co), success)] ep_student_courses)"
  using assms find_enrollment_None [of d uid c]
  by (simp add: student_enroll_guard student_enroll_body_def is_full_def)

lemma enroll_succeededD:
  assumes "succeeded (snd (student_enroll s d c))"
  shows "\<exists>uid co. logged_in s \<and> s_role s = Some ''student'' \<and> s_user_id s = Some uid \<and>
           course_get d c = Some co \<and> enrollments_of d uid c = [] \<and>
           get_enrollment_count d co < capacity co"
  using assms
  by (auto simp: student_enroll_guard student_enroll_body_def Let_def is_full_def
        find_enrollment_None split: option.splits if_splits)

lemma filter_fresh_id:
  "i \<notin> set (map e_id xs) \<Longrightarrow> filter (\<lambda>x. e_id x \<noteq> i) xs = xs"
  by (induction xs) auto

text \<open>
  Claim C3. When no two enrollment rows have the same student and course, this is still so
  after any sequence of requests. And when a request to enroll succeeds, the same student's
  request to drop the course succeeds and restores the enrollment table, and the request
  to enroll again succeeds and leaves exactly one row for the student and the course.
\<close>

theorem one_enrollment_per_pair:
  "(unique_enrollment d \<longrightarrow> unique_enrollment (run d rs)) \<and>
   (succeeded (snd (student_enroll s d c)) \<longrightarrow>
      (let d1 = fst (student_enroll s d c);
           d2 = fst (student_drop s d1 c);
           d3 = fst (student_enroll s d2 c)
       in succeeded (snd (student_drop s d1 c)) \<and>
          succeeded (snd (student_enroll s d2 c)) \<and>
          enrollments d2 = enrollments d \<and>
          (\<exists>uid. s_user_id s = Some uid \<and> length (enrollments_of d3 uid c) = 1)))"
proof (intro conjI impI)
  assume "unique_enrollment d"
  then show "unique_enrollment (run d rs)" by (rule unique_enrollment_run)
next
  assume "succeeded (snd (student_enroll s d c))"
  then obtain uid co where s: "logged_in s" "s_role s = Some ''student''" "s_user_id s = Some uid"
    and co: "course_get d c = Some co" and none: "enrollments_of d uid c = []"
    and room: "get_enrollment_count d co < capacity co"
    using enroll_succeededD by blast
  define new where "new = \<lparr>e_id = next_id (map e_id (enrollments d)), e_user_id = uid,
                            e_course_id = c\<rparr>"
  define d1 where "d1 = d\<lparr>enrollments := enrollments d @ [new]\<rparr>"
  have e1: "student_enroll s d c =
      (d1, Redirect [(Enrolled (c_name co), success)] ep_student_courses)"
    unfolding d1_def new_def using s co none room by (rule enroll_result)
  have "find_enrollment d (Some uid) c = None"
    using none by (simp add: find_enrollment_None)
  then have found: "find_enrollment d1 (Some uid) c = Some new"
    unfolding find_enrollment_def d1_def
    by (simp add: find_append_new new_def)
  have co1: "course_get d1 (e_course_id new) = Some co"
    using co by (simp add: course_get_def d1_def new_def)
  have dr: "student_drop s d1 c =
      (delete_enrollment d1 new, Redirect [(Dropped (c_name co), success)] ep_student_courses)"
    using s found co1 by (simp add: student_drop_guard student_drop_body_def)
  define d2 where "d2 = delete_enrollment d1 new"
  have "next_id (map e_id (enrollments d)) \<notin> set (map e_id (enrollments d))"
    by (rule next_id_fresh)
  then have restored: "enrollments d2 = enrollments d"
    by (simp add: d2_def delete_enrollment_def d1_def new_def filter_fresh_id)
  have cs: "courses d2 = courses d"
    by (simp add: d2_def delete_enrollment_def d1_def)
  have co2: "course_get d2 c = Some co" using co by (simp add: course_get_def cs)
  have none2: "enrollments_of d2 uid c = []" using none by (simp add: enrollments_of_def restored)
  have room2: "get_enrollment_count d2 co < capacity co"
    using room by (simp add: get_enrollment_count_def course_enrollments_def restored)
  have e3: "student_enroll s d2 c =
      (d2\<lparr>enrollments := enrollments d2 @
          [\<lparr>e_id = next_id (map e_id (enrollments d2)), e_user_id = uid, e_course_id = c\<rparr>]\<rparr>,
       Redirect [(Enrolled (c_name co), success)] ep_student_courses)"
    using s co2 none2 room2 by (rule enroll_result)
  have one: "length (enrollments_of (fst (student_enroll s d2 c)) uid c) = 1"
    using none2 by (simp add: e3 enrollments_of_def)
  show "let d1 = fst (student_enroll s d c);
           d2 = fst (student_drop s d1 c);
           d3 = fst (student_enroll s d2 c)
       in succeeded (snd (student_drop s d1 c)) \<and>
          succeeded (snd (student_enroll s d2 c)) \<and>
          enrollments d2 = enrollments d \<and>
          (\<exists>uid. s_user_id s = Some uid \<and> length (enrollments_of d3 uid c) = 1)"
    unfolding Let_def e1 fst_conv dr d2_def [symmetric]
    using one restored s(3) by (simp add: e3)
qed

text \<open>student2 enrolls in the course 2, drops it and enrolls again.\<close>

theorem one_enrollment_per_pair_witness:
  "unique_enrollment sample_db \<and>
   unique_enrollment (run sample_db [Enroll (student_session 3 ''student2'') 2,
                                     Drop (student_session 2 ''student1'') 1]) \<and>
   succeeded (snd (student_enroll (student_session 3 ''student2'') sample_db 2)) \<and>
   succeeded (snd (student_drop (student_session 3 ''student2'')
                     (fst (student_enroll (student_session 3 ''student2'') sample_db 2)) 2)) \<and>
   enrollments_of
     (fst (student_enroll (student_session 3 ''student2'')
        (fst (student_drop (student_session 3 ''student2'')
           (fst (student_enroll (student_session 3 ''student2'') sample_db 2)) 2)) 2)) 3 2
     = [\<lparr>e_id = 4, e_user_id = 3, e_course_id = 2\<rparr>]"
  using one_enrollment_per_pair [of sample_db
          "[Enroll (student_session 3 ''student2'') 2, Drop (student_session 2 ''student1'') 1]"
          "student_session 3 ''student2''" 2]
  by (simp add: handler_defs sample_defs unique_enrollment_def enrollments_of_def)

subsection \<open>One grade row for an enrollment\<close>

lemma edit_result:
  assumes "logged_in s" and "s_role s = Some ''teacher''"
    and "enrollment_get d e = Some en"
    and "find_teacher_course d (s_user_id s) (e_course_id en) = Some tc"
    and "0 \<le> v" and "v \<le> 100"
  shows "teacher_edit_grade s d e (Field_number v) =
     ((case enrollment_grade d en of
         Some g \<Rightarrow> d\<lparr>grades := map (\<lambda>x. if g_id x = g_id g then x\<lparr>grade_value := v\<rparr> else x)
                                   (grades d)\<rparr>
       | None \<Rightarrow> d\<lparr>grades := grades d @ [\<lparr>g_id = next_id (map g_id (grades d)),
                                            g_enrollment_id = e, grade_value = v\<rparr>]\<rparr>),
      Redirect [(Grade_updated, success)] (ep_teacher_course_detail (e_course_id en)))"
  using assms by (simp add: teacher_edit_grade_guard teacher_edit_grade_body_def)

lemma grades_of_after_edit:
  assumes "logged_in s" and "s_role s = Some ''teacher''"
    and "enrollment_get d e = Some en"
    and "find_teacher_course d (s_user_id s) (e_course_id en) = Some tc"
    and "0 \<le> v" and "v \<le> 100" and "unique_grade d"
  shows "map grade_value (grades_of (fst (teacher_edit_grade s d e (Field_number v))) e) = [v]"
proof -
  have id: "e_id en = e" using assms(3) by (rule enrollment_get_id)
  note res = edit_result [OF assms(1-6)]
  show ?thesis
  proof (cases "enrollment_grade d en")
    case None
    then have "filter (\<lambda>g. g_enrollment_id g = e) (grades d) = []"
      using id by (auto simp: enrollment_grade_def find_None_iff filter_empty_conv)
    with None show ?thesis by (simp add: res grades_of_def)
  next
    case (Some g)
    then have "find (\<lambda>g. g_enrollment_id g = e) (grades d) = Some g"
      using id by (simp add: enrollment_grade_def)
    with assms(7) have "filter (\<lambda>x. g_enrollment_id x = e)
        (map (\<lambda>x. if g_id x = g_id g then x\<lparr>grade_value := v\<rparr> else x) (grades d))
        = [g\<lparr>grade_value := v\<rparr>]"
      unfolding unique_grade_def by (rule filter_update_unique)
    with Some show ?thesis by (simp add: res grades_of_def)
  qed
qed

text \<open>
  Claim C5. When no two grade rows refer to the same enrollment, this is still so after a
  grade has been set. A successful request to set the grade overwrites the value of the
  existing grade row where the enrollment has one and appends a new row otherwise; after
  a second successful request with another value, the table has the same rows as after the
  first one and the enrollment has exactly one grade row, which holds the second value.
\<close>

theorem grade_upsert:
  assumes "logged_in s" and "s_role s = Some ''teacher''"
    and "enrollment_get d e = Some en"
    and "find_teacher_course d (s_user_id s) (e_course_id en) = Some tc"
    and "0 \<le> v1" and "v1 \<le> 100" and "0 \<le> v2" and "v2 \<le> 100"
    and "unique_grade d"
  shows "(let d1 = fst (teacher_edit_grade s d e (Field_number v1));
              d2 = fst (teacher_edit_grade s d1 e (Field_number v2))
          in unique_grade d1 \<and> unique_grade d2 \<and>
             succeeded (snd (teacher_edit_grade s d e (Field_number v1))) \<and>
             succeeded (snd (teacher_edit_grade s d1 e (Field_number v2))) \<and>
             grades d1 =
               (case enrollment_grade d en of
                  Some g \<Rightarrow> map (\<lambda>x. if g_id x = g_id g then x\<lparr>grade_value := v1\<rparr> else x)
                              (grades d)
                | None \<Rightarrow> grades d @ [\<lparr>g_id = next_id (map g_id (grades d)),
                                         g_enrollment_id = e, grade_value = v1\<rparr>]) \<and>
             map grade_value (grades_of d1 e) = [v1] \<and>
             map g_id (grades d2) = map g_id (grades d1) \<and>
             map grade_value (grades_of d2 e) = [v2])"
proof -
  define d1 where "d1 = fst (teacher_edit_grade s d e (Field_number v1))"
  define d2 where "d2 = fst (teacher_edit_grade s d1 e (Field_number v2))"
  note res1 = edit_result [OF assms(1-6)]
  have u1: "unique_grade d1"
    using unique_grade_handle [OF assms(9), of "Edit_grade s e (Field_number v1)"]
    by (simp add: d1_def)
  have en1: "enrollment_get d1 e = Some en"
    using assms(3) by (simp add: enrollment_get_def d1_def edit_other_tables)
  have tc1: "find_teacher_course d1 (s_user_id s) (e_course_id en) = Some tc"
    using assms(4) by (simp add: find_teacher_course_def d1_def edit_other_tables)
  note res2 = edit_result [OF assms(1,2) en1 tc1 assms(7,8)]
  have u2: "unique_grade d2"
    using unique_grade_handle [OF u1, of "Edit_grade s e (Field_number v2)"]
    by (simp add: d2_def)
  have g1: "grades d1 =
      (case enrollment_grade d en of
         Some g \<Rightarrow> map (\<lambda>x. if g_id x = g_id g then x\<lparr>grade_value := v1\<rparr> else x) (grades d)
       | None \<Rightarrow> grades d @ [\<lparr>g_id = next_id (map g_id (grades d)),
                                g_enrollment_id = e, grade_value = v1\<rparr>])"
    by (simp add: d1_def res1 split: option.splits)
  have v1: "map grade_value (grades_of d1 e) = [v1]"
    unfolding d1_def by (rule grades_of_after_edit [OF assms(1-6,9)])
  have v2: "map grade_value (grades_of d2 e) = [v2]"
    unfolding d2_def by (rule grades_of_after_edit [OF assms(1,2) en1 tc1 assms(7,8) u1])
  from v1 have "grades_of d1 e \<noteq> []" by auto
  then obtain g where g: "enrollment_grade d1 en = Some g"
    using enrollment_get_id [OF en1]
    by (cases "enrollment_grade d1 en")
       (auto simp: enrollment_grade_def grades_of_def find_None_iff filter_empty_conv)
  have same: "map g_id (grades d2) = map g_id (grades d1)"
    by (simp add: d2_def res2 g comp_def if_distrib [of g_id] cong: if_cong)
  have s1: "succeeded (snd (teacher_edit_grade s d e (Field_number v1)))"
    by (simp add: res1)
  have s2: "succeeded (snd (teacher_edit_grade s d1 e (Field_number v2)))"
    by (simp add: res2)
  show ?thesis
    unfolding Let_def d1_def [symmetric] d2_def [symmetric]
    using u1 u2 s1 s2 g1 v1 same v2 by blast
qed

text \<open>teacher1 sets the grade of the enrollment 1 to 70 and then to 95.5.\<close>

theorem grade_upsert_witness:
  "logged_in (teacher_session 4 ''teacher1'') \<and>
   s_role (teacher_session 4 ''teacher1'') = Some ''teacher'' \<and>
   enrollment_get sample_db 1 = Some \<lparr>e_id = 1, e_user_id = 2, e_course_id = 1\<rparr> \<and>
   find_teacher_course sample_db (s_user_id (teacher_session 4 ''teacher1'')) 1
     = Some \<lparr>tc_id = 1, tc_teacher_id = 4, tc_course_id = 1\<rparr> \<and>
   (0::real) \<le> 70 \<and> (70::real) \<le> 100 \<and> (0::real) \<le> 95.5 \<and> (95.5::real) \<le> 100 \<and>
   unique_grade sample_db \<and>
   grades_of (fst (teacher_edit_grade (teacher_session 4 ''teacher1'')
                (fst (teacher_edit_grade (teacher_session 4 ''teacher1'') sample_db 1
                        (Field_number 70))) 1 (Field_number 95.5))) 1
     = [\<lparr>g_id = 1, g_enrollment_id = 1, grade_value = 95.5\<rparr>]"
  using grade_upsert [of "teacher_session 4 ''teacher1''" sample_db 1
          "\<lparr>e_id = 1, e_user_id = 2, e_course_id = 1\<rparr>"
          "\<lparr>tc_id = 1, tc_teacher_id = 4, tc_course_id = 1\<rparr>" 70 "95.5"]
  by (simp add: handler_defs sample_defs unique_grade_def grades_of_def)

subsection \<open>Dropping a course\<close>




end
